theory Spec2Isabelle
  imports Main "HOL-Library.Word"
begin

section \<open>The machine actuator of cluster-api-provider-vsphere\<close>

text \<open>
  Source: \<^verbatim>\<open>pkg/cloud/vsphere/actuators/machine/actuator.go\<close>.

  The actuator is orchestration code: it calls collaborators (the context builder, the
  membership query, the online probe, the client factory, the token issuer, the govmomi
  backend, the event recorder) and decides what to call next from what they return. The
  collaborators live in other packages, so they are parameters of the model (one record of
  functions), and every call the actuator makes is appended to a trace. A function of the model
  returns the Go function's return value together with that trace.
\<close>

subsection \<open>Durations\<close>

text \<open>Go's \<^verbatim>\<open>time.Duration\<close> is an \<^verbatim>\<open>int64\<close> count of nanoseconds.\<close>

type_synonym Duration = "64 word"

definition Nanosecond :: Duration where
  "Nanosecond = 1"

definition Microsecond :: Duration where
  "Microsecond = 1000 * Nanosecond"

definition Millisecond :: Duration where
  "Millisecond = 1000 * Microsecond"

definition Second :: Duration where
  "Second = 1000 * Millisecond"

definition Minute :: Duration where
  "Minute = 60 * Second"

text \<open>\<^verbatim>\<open>const ( defaultTokenTTL = 10 * time.Minute )\<close>\<close>

definition defaultTokenTTL :: Duration where
  "defaultTokenTTL = 10 * Minute"

subsection \<open>Errors\<close>

text \<open>
  The values of Go's \<^verbatim>\<open>error\<close> interface that occur here: an error made by a collaborator
  (opaque, named by its text), \<^verbatim>\<open>errors.Errorf(format, ctx)\<close>,
  \<^verbatim>\<open>errors.Wrapf(err, format, ctx)\<close> and
  \<^verbatim>\<open>&clustererr.RequeueAfterError{RequeueAfter: d}\<close>. A nil error is \<open>None\<close>.
\<close>

datatype error =
    External string
  | Errorf string string
  | Wrapf error string string
  | RequeueAfterError Duration

fun is_requeue :: "error \<Rightarrow> bool" where
  "is_requeue (RequeueAfterError d) = True"
| "is_requeue (External s) = False"
| "is_requeue (Errorf f c) = False"
| "is_requeue (Wrapf e f c) = False"

subsection \<open>The operation context\<close>

record KeyPair =
  Cert :: "8 word list"
  Key :: "8 word list"

text \<open>
  Modelled from the spec: \<^verbatim>\<open>KeyPair.HasCertAndKey\<close> is declared in the API package, outside
  the actuator. The spec: the key pair is fully populated when both the certificate and the
  private key are present.
\<close>

definition HasCertAndKey :: "KeyPair \<Rightarrow> bool" where
  "HasCertAndKey kp = (Cert kp \<noteq> [] \<and> Key kp \<noteq> [])"

text \<open>
  What the actuator reads from a \<^verbatim>\<open>*context.MachineContext\<close>: its rendering by \<^verbatim>\<open>%q\<close>
  (\<open>ctxString\<close>), the value of \<^verbatim>\<open>ctx.Role()\<close> (\<open>ctxRole\<close>), and
  \<^verbatim>\<open>ctx.ClusterConfig.CAKeyPair\<close>.
\<close>

record MachineContext =
  ctxString :: string
  ctxRole :: string
  CAKeyPair :: KeyPair

type_synonym Cluster = string
type_synonym Machine = string
type_synonym KubeClient = nat

subsection \<open>Collaborators\<close>

text \<open>
  The functions and constants of other packages that the actuator uses, as parameters.
  \<open>RequeueAfterSeconds\<close> is \<^verbatim>\<open>constants.RequeueAfterSeconds\<close> and \<open>ControlPlaneRole\<close> is
  \<^verbatim>\<open>context.ControlPlaneRole\<close>. \<open>GetControlPlaneStatus\<close> returns the triple
  (online, detail, error) of \<^verbatim>\<open>kubeclient.GetControlPlaneStatus\<close>.
\<close>

record Collaborators =
  RequeueAfterSeconds :: Duration
  ControlPlaneRole :: string
  NewMachineContext :: "Cluster \<Rightarrow> Machine \<Rightarrow> error + MachineContext"
  GetControlPlaneMachines :: "MachineContext \<Rightarrow> error + Machine list"
  GetControlPlaneStatus :: "MachineContext \<Rightarrow> bool \<times> string \<times> error option"
  GetKubeClientForCluster :: "MachineContext \<Rightarrow> error + KubeClient"
  NewBootstrap :: "KubeClient \<Rightarrow> Duration \<Rightarrow> error + string"
  govmomi_Create :: "MachineContext \<Rightarrow> string \<Rightarrow> error option"
  govmomi_Delete :: "MachineContext \<Rightarrow> error option"
  govmomi_Update :: "MachineContext \<Rightarrow> error option"
  govmomi_Exists :: "MachineContext \<Rightarrow> bool \<times> error option"

subsection \<open>Traces and deferred calls\<close>

text \<open>
  One action per call that leaves the actuator. \<open>Eventf reason format ctx\<close> and
  \<open>Warnf reason format ctx err\<close> are the calls of the event recorder, \<open>Patch\<close> is
  \<^verbatim>\<open>ctx.Patch()\<close>, \<open>LogInfo\<close> is \<^verbatim>\<open>ctx.Logger.V(2).Info\<close>.
\<close>

datatype action =
    CallNewMachineContext
  | CallRole
  | LogInfo string
  | CallHasCertAndKey
  | CallGetControlPlaneMachines
  | CallGetControlPlaneStatus
  | CallGetKubeClientForCluster
  | CallNewBootstrap KubeClient Duration
  | CallGovmomiCreate string
  | CallGovmomiDelete
  | CallGovmomiUpdate
  | CallGovmomiExists
  | Patch
  | Eventf string string string
  | Warnf string string string error

text \<open>
  A deferred call is a closure over the named result of the function: it runs when the
  function returns and sees the value being returned. None of the deferred calls of this file
  assigns the result.
\<close>

type_synonym deferred = "error option \<Rightarrow> action list"

record frame =
  trace :: "action list"
  defers :: "deferred list"

definition frame0 :: frame where
  "frame0 = \<lparr>trace = [], defers = []\<rparr>"

definition emit :: "action \<Rightarrow> frame \<Rightarrow> frame" where
  "emit a s = s\<lparr>trace := trace s @ [a]\<rparr>"

text \<open>\<^verbatim>\<open>defer f\<close>: deferred calls run in the reverse of the order they were deferred in.\<close>

definition defer_call :: "deferred \<Rightarrow> frame \<Rightarrow> frame" where
  "defer_call d s = s\<lparr>defers := d # defers s\<rparr>"

definition run_defers :: "error option \<Rightarrow> frame \<Rightarrow> action list" where
  "run_defers result s = trace s @ concat (map (\<lambda>d. d result) (defers s))"

text \<open>
  The deferred closure of Create, Delete and Update:
  \<^verbatim>\<open>
  defer func() {
      if result == nil {
          record.Eventf(ctx.Machine, "CreateSuccess", "created machine %q", ctx)
      } else {
          record.Warnf(ctx.Machine, "CreateFailure", "failed to create machine %q: %v", ctx, result)
      }
  }()
  \<close>
\<close>

definition CreateOutcome :: "MachineContext \<Rightarrow> error option \<Rightarrow> action" where
  "CreateOutcome ctx result =
     (case result of
        None \<Rightarrow> Eventf ''CreateSuccess'' ''created machine %q'' (ctxString ctx)
      | Some err \<Rightarrow>
          Warnf ''CreateFailure'' ''failed to create machine %q: %v'' (ctxString ctx) err)"

definition DeleteOutcome :: "MachineContext \<Rightarrow> error option \<Rightarrow> action" where
  "DeleteOutcome ctx result =
     (case result of
        None \<Rightarrow> Eventf ''DeleteSuccess'' ''deleted machine %q'' (ctxString ctx)
      | Some err \<Rightarrow>
          Warnf ''DeleteFailure'' ''failed to delete machine %q: %v'' (ctxString ctx) err)"

definition UpdateOutcome :: "MachineContext \<Rightarrow> error option \<Rightarrow> action" where
  "UpdateOutcome ctx result =
     (case result of
        None \<Rightarrow> Eventf ''UpdateSuccess'' ''updated machine %q'' (ctxString ctx)
      | Some err \<Rightarrow>
          Warnf ''UpdateFailure'' ''failed to update machine %q: %v'' (ctxString ctx) err)"

subsection \<open>Create\<close>

text \<open>
  The body of \<^verbatim>\<open>Actuator.Create\<close> up to its \<^verbatim>\<open>return\<close>: the value returned and the frame
  (calls made so far, deferred calls pending) at that point.
\<close>

definition Create_body ::
  "Collaborators \<Rightarrow> Cluster \<Rightarrow> Machine \<Rightarrow> error option \<times> frame" where
  "Create_body w cluster machine =
    (let s = emit CallNewMachineContext frame0 in
     (case NewMachineContext w cluster machine of
        Inl err \<Rightarrow> (Some err, s)
      | Inr ctx \<Rightarrow>
         (let s = defer_call (\<lambda>result. [CreateOutcome ctx result]) s;
              s = emit CallRole s;
              machineRole = ctxRole ctx
          in
          if machineRole = '''' then
            (Some (Errorf ''unable to get machine role while creating machine %q''
                     (ctxString ctx)), s)
          else
          (let s = emit (LogInfo ''creating machine'') s;
               s = defer_call (\<lambda>result. [Patch]) s;
               s = emit CallHasCertAndKey s
           in
           if \<not> HasCertAndKey (CAKeyPair ctx) then
             (Some (RequeueAfterError (RequeueAfterSeconds w)),
              emit (LogInfo ''cluster config is missing pki toolchain, requeue machine'') s)
           else
           (let s = emit CallGetControlPlaneMachines s in
            (case GetControlPlaneMachines w ctx of
               Inl err \<Rightarrow>
                 (Some (Wrapf err
                    ''unable to get control plane machines while creating machine %q''
                    (ctxString ctx)), s)
             | Inr controlPlaneMachines \<Rightarrow>
                (if machineRole = ControlPlaneRole w \<and> length controlPlaneMachines = 1 then
                   (let s = emit (CallGovmomiCreate '''') s in
                    (case govmomi_Create w ctx '''' of
                       Some err \<Rightarrow>
                         (Some (Wrapf err
                            ''failed to create machine as initial member of the control plane %q''
                            (ctxString ctx)), s)
                     | None \<Rightarrow> (None, s)))
                 else
                 (let s = emit CallGetControlPlaneStatus s;
                      online = fst (GetControlPlaneStatus w ctx)
                  in
                  if \<not> online then
                    (Some (RequeueAfterError (Minute * 1)),
                     emit (LogInfo
                       ''unable to join machine to control plane until it is online'') s)
                  else
                  (let s = emit CallGetKubeClientForCluster s in
                   (case GetKubeClientForCluster w ctx of
                      Inl err \<Rightarrow>
                        (Some (Wrapf err
                           ''failed to get kubeclient while creating machine %q''
                           (ctxString ctx)), s)
                    | Inr kubeClient \<Rightarrow>
                       (let s = emit (CallNewBootstrap kubeClient defaultTokenTTL) s in
                        (case NewBootstrap w kubeClient defaultTokenTTL of
                           Inl err \<Rightarrow>
                             (Some (Wrapf err
                                ''unable to generate boostrap token for joining machine to cluster %q''
                                (ctxString ctx)), s)
                         | Inr token \<Rightarrow>
                            (let s = emit (CallGovmomiCreate token) s in
                             (case govmomi_Create w ctx token of
                                Some err \<Rightarrow>
                                  (Some (Wrapf err
                                     ''failed to create machine and join it to the cluster %q''
                                     (ctxString ctx)), s)
                              | None \<Rightarrow> (None, s)))))))))))))))"

text \<open>\<^verbatim>\<open>Actuator.Create\<close>: the body, then the deferred calls, last deferred first.\<close>

definition Actuator_Create ::
  "Collaborators \<Rightarrow> Cluster \<Rightarrow> Machine \<Rightarrow> error option \<times> action list" where
  "Actuator_Create w cluster machine =
     (case Create_body w cluster machine of
        (result, s) \<Rightarrow> (result, run_defers result s))"

subsection \<open>Delete, Update, Exists\<close>

definition Delete_body ::
  "Collaborators \<Rightarrow> Cluster \<Rightarrow> Machine \<Rightarrow> error option \<times> frame" where
  "Delete_body w cluster machine =
    (let s = emit CallNewMachineContext frame0 in
     case NewMachineContext w cluster machine of
       Inl err \<Rightarrow> (Some err, s)
     | Inr ctx \<Rightarrow>
        let s = defer_call (\<lambda>result. [DeleteOutcome ctx result]) s;
            s = emit (LogInfo ''deleting machine'') s;
            s = defer_call (\<lambda>result. [Patch]) s;
            s = emit CallGovmomiDelete s
        in (govmomi_Delete w ctx, s))"

definition Actuator_Delete ::
  "Collaborators \<Rightarrow> Cluster \<Rightarrow> Machine \<Rightarrow> error option \<times> action list" where
  "Actuator_Delete w cluster machine =
     (case Delete_body w cluster machine of
        (result, s) \<Rightarrow> (result, run_defers result s))"

definition Update_body ::
  "Collaborators \<Rightarrow> Cluster \<Rightarrow> Machine \<Rightarrow> error option \<times> frame" where
  "Update_body w cluster machine =
    (let s = emit CallNewMachineContext frame0 in
     case NewMachineContext w cluster machine of
       Inl err \<Rightarrow> (Some err, s)
     | Inr ctx \<Rightarrow>
        let s = defer_call (\<lambda>result. [UpdateOutcome ctx result]) s;
            s = emit (LogInfo ''updating machine'') s;
            s = defer_call (\<lambda>result. [Patch]) s;
            s = emit CallGovmomiUpdate s
        in (govmomi_Update w ctx, s))"

definition Actuator_Update ::
  "Collaborators \<Rightarrow> Cluster \<Rightarrow> Machine \<Rightarrow> error option \<times> action list" where
  "Actuator_Update w cluster machine =
     (case Update_body w cluster machine of
        (result, s) \<Rightarrow> (result, run_defers result s))"

text \<open>
  \<^verbatim>\<open>Actuator.Exists\<close> returns \<^verbatim>\<open>(ok bool, result error)\<close> and defers nothing.
\<close>

definition Actuator_Exists ::
  "Collaborators \<Rightarrow> Cluster \<Rightarrow> Machine \<Rightarrow> (bool \<times> error option) \<times> action list" where
  "Actuator_Exists w cluster machine =
    (let s = emit CallNewMachineContext frame0 in
     case NewMachineContext w cluster machine of
       Inl err \<Rightarrow> ((False, Some err), run_defers (Some err) s)
     | Inr ctx \<Rightarrow>
        let s = emit CallGovmomiExists s
        in (govmomi_Exists w ctx, run_defers (snd (govmomi_Exists w ctx)) s))"

subsection \<open>Reading a trace\<close>

fun is_backend_call :: "action \<Rightarrow> bool" where
  "is_backend_call (CallGovmomiCreate t) = True"
| "is_backend_call CallGovmomiDelete = True"
| "is_backend_call CallGovmomiUpdate = True"
| "is_backend_call CallGovmomiExists = True"
| "is_backend_call a = False"

fun is_credential_issue :: "action \<Rightarrow> bool" where
  "is_credential_issue (CallNewBootstrap c ttl) = True"
| "is_credential_issue a = False"

fun is_event :: "action \<Rightarrow> bool" where
  "is_event (Eventf r f c) = True"
| "is_event (Warnf r f c e) = True"
| "is_event a = False"

fun is_failure_event :: "action \<Rightarrow> bool" where
  "is_failure_event (Warnf r f c e) = True"
| "is_failure_event a = False"

fun is_patch :: "action \<Rightarrow> bool" where
  "is_patch Patch = True"
| "is_patch a = False"

fun is_patch_or_event :: "action \<Rightarrow> bool" where
  "is_patch_or_event Patch = True"
| "is_patch_or_event (Eventf r f c) = True"
| "is_patch_or_event (Warnf r f c e) = True"
| "is_patch_or_event a = False"

subsection \<open>Concrete collaborators used to instantiate the theorems\<close>

definition ca_full :: KeyPair where
  "ca_full = \<lparr>Cert = [1], Key = [2]\<rparr>"

definition ca_no_cert :: KeyPair where
  "ca_no_cert = \<lparr>Cert = [], Key = [2]\<rparr>"

definition ctx_of :: "string \<Rightarrow> KeyPair \<Rightarrow> MachineContext" where
  "ctx_of role kp = \<lparr>ctxString = ''c1/m1'', ctxRole = role, CAKeyPair = kp\<rparr>"

text \<open>
  A world in which every collaborator succeeds: the context has the given role and key pair,
  the membership query lists \<open>ms\<close>, the probe answers \<open>st\<close>, the token issued is \<open>abcdef\<close>.
\<close>

definition world ::
  "string \<Rightarrow> KeyPair \<Rightarrow> Machine list \<Rightarrow> bool \<times> string \<times> error option \<Rightarrow> Collaborators" where
  "world role kp ms st =
     \<lparr>RequeueAfterSeconds = 20 * Second,
      ControlPlaneRole = ''controlplane'',
      NewMachineContext = (\<lambda>c m. Inr (ctx_of role kp)),
      GetControlPlaneMachines = (\<lambda>ctx. Inr ms),
      GetControlPlaneStatus = (\<lambda>ctx. st),
      GetKubeClientForCluster = (\<lambda>ctx. Inr 7),
      NewBootstrap = (\<lambda>k ttl. Inr ''abcdef''),
      govmomi_Create = (\<lambda>ctx token. None),
      govmomi_Delete = (\<lambda>ctx. None),
      govmomi_Update = (\<lambda>ctx. None),
      govmomi_Exists = (\<lambda>ctx. (True, None))\<rparr>"

text \<open>The same world, except that the operation context cannot be built.\<close>

definition no_context :: Collaborators where
  "no_context = (world ''node'' ca_full [] (True, ''ok'', None))
      \<lparr>NewMachineContext := (\<lambda>c m. Inl (External ''cluster not found''))\<rparr>"

section \<open>Properties\<close>

lemmas actuator_defs =
  Create_body_def Actuator_Create_def Delete_body_def Actuator_Delete_def
  Update_body_def Actuator_Update_def Actuator_Exists_def
  emit_def defer_call_def run_defers_def frame0_def Let_def

lemmas outcome_defs = CreateOutcome_def DeleteOutcome_def UpdateOutcome_def

lemmas world_defs = world_def ctx_of_def ca_full_def ca_no_cert_def HasCertAndKey_def

lemmas duration_defs =
  Minute_def Second_def Millisecond_def Microsecond_def Nanosecond_def

lemma Minute_val: "Minute = 60000000000"
  by (simp add: duration_defs)

lemma defaultTokenTTL_val: "defaultTokenTTL = 600000000000"
  by (simp add: defaultTokenTTL_def Minute_val)

lemma is_event_CreateOutcome: "is_event (CreateOutcome ctx r)"
  by (simp add: CreateOutcome_def split: option.splits)

lemma is_patch_or_event_CreateOutcome: "is_patch_or_event (CreateOutcome ctx r)"
  by (simp add: CreateOutcome_def split: option.splits)

lemma events_of_Create:
  "NewMachineContext w cluster machine = Inr ctx \<Longrightarrow>
   filter is_event (snd (Actuator_Create w cluster machine)) =
     [CreateOutcome ctx (fst (Actuator_Create w cluster machine))]"
  by (simp add: actuator_defs is_event_CreateOutcome split: sum.splits option.splits)

subsection \<open>Create: the bootstrap branch\<close>

text \<open>
  C1. When the context is built, the role is resolved and equals the control-plane role, the CA
  key pair is complete and the membership query lists exactly one machine, Create calls the
  backend once, with the empty token, and returns what it returns: nil for nil, the error
  wrapped otherwise. No token is issued and the online probe is not called.
\<close>

theorem Create_bootstrap:
  assumes "NewMachineContext w cluster machine = Inr ctx"
      and "ctxRole ctx \<noteq> ''''"
      and "ctxRole ctx = ControlPlaneRole w"
      and "HasCertAndKey (CAKeyPair ctx)"
      and "GetControlPlaneMachines w ctx = Inr ms"
      and "length ms = 1"
  shows "fst (Actuator_Create w cluster machine) =
           (case govmomi_Create w ctx '''' of
              None \<Rightarrow> None
            | Some err \<Rightarrow> Some (Wrapf err
                ''failed to create machine as initial member of the control plane %q''
                (ctxString ctx)))
       \<and> filter is_backend_call (snd (Actuator_Create w cluster machine))
           = [CallGovmomiCreate '''']
       \<and> filter is_credential_issue (snd (Actuator_Create w cluster machine)) = []
       \<and> CallGetControlPlaneStatus \<notin> set (snd (Actuator_Create w cluster machine))"
  using assms by (simp add: actuator_defs outcome_defs split: option.splits)

theorem Create_bootstrap_witness:
  "NewMachineContext (world ''controlplane'' ca_full [''m1''] (False, '''', None)) ''c1'' ''m1''
      = Inr (ctx_of ''controlplane'' ca_full)
   \<and> ctxRole (ctx_of ''controlplane'' ca_full)
      = ControlPlaneRole (world ''controlplane'' ca_full [''m1''] (False, '''', None))
   \<and> HasCertAndKey (CAKeyPair (ctx_of ''controlplane'' ca_full))
   \<and> fst (Actuator_Create (world ''controlplane'' ca_full [''m1''] (False, '''', None))
        ''c1'' ''m1'') = None
   \<and> filter is_backend_call
        (snd (Actuator_Create (world ''controlplane'' ca_full [''m1''] (False, '''', None))
           ''c1'' ''m1''))
      = [CallGovmomiCreate '''']"
  using Create_bootstrap [of "world ''controlplane'' ca_full [''m1''] (False, '''', None)"
      "''c1''" "''m1''" "ctx_of ''controlplane'' ca_full" "[''m1'']"]
  by (simp add: world_defs)

subsection \<open>Create: the join branch\<close>

text \<open>
  C2. On the join path (context built, role resolved, CA key pair complete, membership query
  answered, and the role is not the control-plane role or the count is not one), when the
  probe says the control plane is not online, Create returns a requeue-after error of one
  minute (60 * 10^9 nanoseconds) and calls neither the client factory, nor the token issuer,
  nor the backend.
\<close>

theorem Create_join_offline:
  assumes "NewMachineContext w cluster machine = Inr ctx"
      and "ctxRole ctx \<noteq> ''''"
      and "HasCertAndKey (CAKeyPair ctx)"
      and "GetControlPlaneMachines w ctx = Inr ms"
      and "ctxRole ctx \<noteq> ControlPlaneRole w \<or> length ms \<noteq> 1"
      and "\<not> fst (GetControlPlaneStatus w ctx)"
  shows "fst (Actuator_Create w cluster machine) = Some (RequeueAfterError Minute)
       \<and> Minute = 60 * 1000000000
       \<and> CallGetKubeClientForCluster \<notin> set (snd (Actuator_Create w cluster machine))
       \<and> filter is_credential_issue (snd (Actuator_Create w cluster machine)) = []
       \<and> filter is_backend_call (snd (Actuator_Create w cluster machine)) = []"
  using assms by (auto simp add: actuator_defs outcome_defs Minute_val)

theorem Create_join_offline_witness:
  "NewMachineContext
      (world ''node'' ca_full [''m0''] (False, ''down'', Some (External ''timeout'')))
      ''c1'' ''m1''
      = Inr (ctx_of ''node'' ca_full)
   \<and> ctxRole (ctx_of ''node'' ca_full) \<noteq> ''''
   \<and> HasCertAndKey (CAKeyPair (ctx_of ''node'' ca_full))
   \<and> ctxRole (ctx_of ''node'' ca_full)
        \<noteq> ControlPlaneRole
            (world ''node'' ca_full [''m0''] (False, ''down'', Some (External ''timeout'')))
   \<and> fst (Actuator_Create
        (world ''node'' ca_full [''m0''] (False, ''down'', Some (External ''timeout'')))
        ''c1'' ''m1'')
        = Some (RequeueAfterError 60000000000)
   \<and> CallGetKubeClientForCluster
        \<notin> set (snd (Actuator_Create
            (world ''node'' ca_full [''m0''] (False, ''down'', Some (External ''timeout'')))
            ''c1'' ''m1''))"
  using Create_join_offline
    [of "world ''node'' ca_full [''m0''] (False, ''down'', Some (External ''timeout''))"
      "''c1''" "''m1''" "ctx_of ''node'' ca_full" "[''m0'']"]
  by (simp add: world_defs)

text \<open>
  C3. On the join path with the control plane online, Create asks for a client, then for a
  token with \<open>defaultTokenTTL\<close> (ten minutes), then calls the backend with exactly that token.
  The first of the three that fails ends the call: its error is wrapped with the step's message
  and returned, and the later steps are not attempted. The theorem gives the whole run (result
  and trace) in each of the four cases.
\<close>

theorem Create_join_online:
  assumes "NewMachineContext w cluster machine = Inr ctx"
      and "ctxRole ctx \<noteq> ''''"
      and "HasCertAndKey (CAKeyPair ctx)"
      and "GetControlPlaneMachines w ctx = Inr ms"
      and "ctxRole ctx \<noteq> ControlPlaneRole w \<or> length ms \<noteq> 1"
      and "fst (GetControlPlaneStatus w ctx)"
  shows "defaultTokenTTL = 10 * Minute \<and> Minute = 60 * 1000000000 \<and>
    Actuator_Create w cluster machine =
    (case GetKubeClientForCluster w ctx of
       Inl err \<Rightarrow>
         (Some (Wrapf err ''failed to get kubeclient while creating machine %q''
            (ctxString ctx)),
          [CallNewMachineContext, CallRole, LogInfo ''creating machine'', CallHasCertAndKey,
           CallGetControlPlaneMachines, CallGetControlPlaneStatus,
           CallGetKubeClientForCluster, Patch,
           Warnf ''CreateFailure'' ''failed to create machine %q: %v'' (ctxString ctx)
             (Wrapf err ''failed to get kubeclient while creating machine %q''
                (ctxString ctx))])
     | Inr kubeClient \<Rightarrow>
        (case NewBootstrap w kubeClient defaultTokenTTL of
           Inl err \<Rightarrow>
             (Some (Wrapf err
                ''unable to generate boostrap token for joining machine to cluster %q''
                (ctxString ctx)),
              [CallNewMachineContext, CallRole, LogInfo ''creating machine'',
               CallHasCertAndKey, CallGetControlPlaneMachines, CallGetControlPlaneStatus,
               CallGetKubeClientForCluster, CallNewBootstrap kubeClient defaultTokenTTL,
               Patch,
               Warnf ''CreateFailure'' ''failed to create machine %q: %v'' (ctxString ctx)
                 (Wrapf err
                    ''unable to generate boostrap token for joining machine to cluster %q''
                    (ctxString ctx))])
         | Inr token \<Rightarrow>
            (case govmomi_Create w ctx token of
               Some err \<Rightarrow>
                 (Some (Wrapf err ''failed to create machine and join it to the cluster %q''
                    (ctxString ctx)),
                  [CallNewMachineContext, CallRole, LogInfo ''creating machine'',
                   CallHasCertAndKey, CallGetControlPlaneMachines, CallGetControlPlaneStatus,
                   CallGetKubeClientForCluster, CallNewBootstrap kubeClient defaultTokenTTL,
                   CallGovmomiCreate token, Patch,
                   Warnf ''CreateFailure'' ''failed to create machine %q: %v'' (ctxString ctx)
                     (Wrapf err ''failed to create machine and join it to the cluster %q''
                        (ctxString ctx))])
             | None \<Rightarrow>
                 (None,
                  [CallNewMachineContext, CallRole, LogInfo ''creating machine'',
                   CallHasCertAndKey, CallGetControlPlaneMachines, CallGetControlPlaneStatus,
                   CallGetKubeClientForCluster, CallNewBootstrap kubeClient defaultTokenTTL,
                   CallGovmomiCreate token, Patch,
                   Eventf ''CreateSuccess'' ''created machine %q'' (ctxString ctx)]))))"
proof -
  have ttl: "defaultTokenTTL = 10 * Minute"
    by (simp add: defaultTokenTTL_def)
  have minute: "Minute = 60 * 1000000000"
    by (simp add: Minute_val)
  from assms ttl minute show ?thesis
    by (auto simp add: actuator_defs outcome_defs split: sum.splits option.splits)
qed

theorem Create_join_online_witness:
  "NewMachineContext (world ''node'' ca_full [''m0''] (True, ''ok'', None)) ''c1'' ''m1''
      = Inr (ctx_of ''node'' ca_full)
   \<and> ctxRole (ctx_of ''node'' ca_full) \<noteq> ''''
   \<and> HasCertAndKey (CAKeyPair (ctx_of ''node'' ca_full))
   \<and> fst (GetControlPlaneStatus (world ''node'' ca_full [''m0''] (True, ''ok'', None))
        (ctx_of ''node'' ca_full))
   \<and> Actuator_Create (world ''node'' ca_full [''m0''] (True, ''ok'', None)) ''c1'' ''m1'' =
       (None,
        [CallNewMachineContext, CallRole, LogInfo ''creating machine'',
         CallHasCertAndKey, CallGetControlPlaneMachines, CallGetControlPlaneStatus,
         CallGetKubeClientForCluster, CallNewBootstrap 7 600000000000,
         CallGovmomiCreate ''abcdef'', Patch,
         Eventf ''CreateSuccess'' ''created machine %q'' ''c1/m1''])"
  using Create_join_online [of "world ''node'' ca_full [''m0''] (True, ''ok'', None)"
      "''c1''" "''m1''" "ctx_of ''node'' ca_full" "[''m0'']"]
  by (simp add: world_defs defaultTokenTTL_val)

subsection \<open>Create: the gates\<close>

text \<open>
  C4. When the invocation reaches the CA check (context built, role resolved) and the CA key
  pair lacks its certificate or its private key, Create returns a requeue-after error carrying
  \<open>RequeueAfterSeconds\<close>, the fixed backoff constant, and makes no backend call.
\<close>

theorem Create_ca_incomplete:
  assumes "NewMachineContext w cluster machine = Inr ctx"
      and "ctxRole ctx \<noteq> ''''"
      and "Cert (CAKeyPair ctx) = [] \<or> Key (CAKeyPair ctx) = []"
  shows "fst (Actuator_Create w cluster machine)
           = Some (RequeueAfterError (RequeueAfterSeconds w))
       \<and> filter is_backend_call (snd (Actuator_Create w cluster machine)) = []"
  using assms by (auto simp add: actuator_defs outcome_defs HasCertAndKey_def)

theorem Create_ca_incomplete_witness:
  "NewMachineContext (world ''node'' ca_no_cert [''m0''] (True, ''ok'', None)) ''c1'' ''m1''
      = Inr (ctx_of ''node'' ca_no_cert)
   \<and> ctxRole (ctx_of ''node'' ca_no_cert) \<noteq> ''''
   \<and> Cert (CAKeyPair (ctx_of ''node'' ca_no_cert)) = []
   \<and> fst (Actuator_Create (world ''node'' ca_no_cert [''m0''] (True, ''ok'', None))
        ''c1'' ''m1'')
        = Some (RequeueAfterError 20000000000)
   \<and> filter is_backend_call
        (snd (Actuator_Create (world ''node'' ca_no_cert [''m0''] (True, ''ok'', None))
           ''c1'' ''m1'')) = []"
  using Create_ca_incomplete [of "world ''node'' ca_no_cert [''m0''] (True, ''ok'', None)"
      "''c1''" "''m1''" "ctx_of ''node'' ca_no_cert"]
  by (simp add: world_defs duration_defs)

text \<open>
  C5. When the context is built and \<^verbatim>\<open>ctx.Role()\<close> is the empty string, Create returns the
  error "unable to get machine role ...", which is not a requeue-after error, and makes no
  backend call. The CA check and the membership query are not reached: the run is the same
  whatever the key pair and the membership query are.
\<close>

theorem Create_role_unresolved:
  assumes "NewMachineContext w cluster machine = Inr ctx"
      and "ctxRole ctx = ''''"
  shows "Actuator_Create w cluster machine =
           (Some (Errorf ''unable to get machine role while creating machine %q''
              (ctxString ctx)),
            [CallNewMachineContext, CallRole,
             Warnf ''CreateFailure'' ''failed to create machine %q: %v'' (ctxString ctx)
               (Errorf ''unable to get machine role while creating machine %q''
                  (ctxString ctx))])
       \<and> \<not> is_requeue (Errorf ''unable to get machine role while creating machine %q''
              (ctxString ctx))
       \<and> filter is_backend_call (snd (Actuator_Create w cluster machine)) = []
       \<and> CallHasCertAndKey \<notin> set (snd (Actuator_Create w cluster machine))
       \<and> CallGetControlPlaneMachines \<notin> set (snd (Actuator_Create w cluster machine))"
  using assms by (simp add: actuator_defs outcome_defs)

theorem Create_role_unresolved_witness:
  "NewMachineContext (world '''' ca_no_cert [] (True, ''ok'', None)) ''c1'' ''m1''
      = Inr (ctx_of '''' ca_no_cert)
   \<and> ctxRole (ctx_of '''' ca_no_cert) = ''''
   \<and> Actuator_Create (world '''' ca_no_cert [] (True, ''ok'', None)) ''c1'' ''m1'' =
       (Some (Errorf ''unable to get machine role while creating machine %q'' ''c1/m1''),
        [CallNewMachineContext, CallRole,
         Warnf ''CreateFailure'' ''failed to create machine %q: %v'' ''c1/m1''
           (Errorf ''unable to get machine role while creating machine %q'' ''c1/m1'')])"
  using Create_role_unresolved [of "world '''' ca_no_cert [] (True, ''ok'', None)"
      "''c1''" "''m1''" "ctx_of '''' ca_no_cert"]
  by (simp add: world_defs)

subsection \<open>Create: events and the status patch\<close>

text \<open>
  The deferred closure of Create tests only \<^verbatim>\<open>result == nil\<close>. A requeue-after error is a
  non-nil result, so a Create that ends in retry-after records a \<open>CreateFailure\<close> warning: here
  with the certificate missing.
\<close>

theorem Create_retry_after_emits_failure_event:
  "fst (Actuator_Create (world ''node'' ca_no_cert [''m0''] (True, ''ok'', None)) ''c1'' ''m1'')
     = Some (RequeueAfterError 20000000000)
   \<and> filter is_failure_event
       (snd (Actuator_Create (world ''node'' ca_no_cert [''m0''] (True, ''ok'', None))
          ''c1'' ''m1''))
     = [Warnf ''CreateFailure'' ''failed to create machine %q: %v'' ''c1/m1''
          (RequeueAfterError 20000000000)]"
  by (simp add: actuator_defs outcome_defs world_defs duration_defs)

text \<open>
  C6, as the code has it. When the context is built, Create records exactly one event, chosen
  by the result alone: \<open>CreateSuccess\<close> for nil, a \<open>CreateFailure\<close> warning carrying the result
  for every non-nil result, a requeue-after error included. When the context cannot be built,
  Create returns that error and records nothing.
\<close>

theorem Create_one_event:
  "(NewMachineContext w cluster machine = Inr ctx \<longrightarrow>
      filter is_event (snd (Actuator_Create w cluster machine)) =
        [CreateOutcome ctx (fst (Actuator_Create w cluster machine))]
      \<and> (is_failure_event (CreateOutcome ctx (fst (Actuator_Create w cluster machine)))
           = (fst (Actuator_Create w cluster machine) \<noteq> None)))
   \<and> (NewMachineContext w cluster machine = Inl err \<longrightarrow>
        Actuator_Create w cluster machine = (Some err, [CallNewMachineContext]))"
proof (intro conjI impI)
  assume c: "NewMachineContext w cluster machine = Inr ctx"
  then show "filter is_event (snd (Actuator_Create w cluster machine)) =
        [CreateOutcome ctx (fst (Actuator_Create w cluster machine))]"
    by (rule events_of_Create)
  show "is_failure_event (CreateOutcome ctx (fst (Actuator_Create w cluster machine)))
           = (fst (Actuator_Create w cluster machine) \<noteq> None)"
    by (cases "fst (Actuator_Create w cluster machine)") (simp_all add: CreateOutcome_def)
next
  assume "NewMachineContext w cluster machine = Inl err"
  then show "Actuator_Create w cluster machine = (Some err, [CallNewMachineContext])"
    by (simp add: actuator_defs)
qed

theorem Create_one_event_witness:
  "NewMachineContext (world ''node'' ca_full [''m0''] (False, ''down'', None)) ''c1'' ''m1''
      = Inr (ctx_of ''node'' ca_full)
   \<and> filter is_event
       (snd (Actuator_Create (world ''node'' ca_full [''m0''] (False, ''down'', None))
          ''c1'' ''m1''))
      = [Warnf ''CreateFailure'' ''failed to create machine %q: %v'' ''c1/m1''
          (RequeueAfterError 60000000000)]
   \<and> NewMachineContext no_context ''c1'' ''m1'' = Inl (External ''cluster not found'')
   \<and> Actuator_Create no_context ''c1'' ''m1''
      = (Some (External ''cluster not found''), [CallNewMachineContext])"
  using Create_one_event [of "world ''node'' ca_full [''m0''] (False, ''down'', None)"
      "''c1''" "''m1''" "ctx_of ''node'' ca_full" "External ''x''"]
    Create_one_event [of no_context "''c1''" "''m1''" "ctx_of ''node'' ca_full"
      "External ''cluster not found''"]
  by (simp add: no_context_def world_defs actuator_defs outcome_defs duration_defs)

text \<open>
  \<^verbatim>\<open>defer ctx.Patch()\<close> comes after the role check. With the context built and an empty role,
  Create returns before the patch is deferred, and no patch is flushed.
\<close>

theorem Create_role_unresolved_no_patch:
  "NewMachineContext (world '''' ca_full [''m0''] (True, ''ok'', None)) ''c1'' ''m1''
     = Inr (ctx_of '''' ca_full)
   \<and> filter is_patch
       (snd (Actuator_Create (world '''' ca_full [''m0''] (True, ''ok'', None)) ''c1'' ''m1''))
     = []"
  by (simp add: actuator_defs outcome_defs world_defs)

text \<open>
  C7, as the code has it. When the context is built and the role is not empty, whichever branch
  is taken and whatever the result (nil, an error, retry-after), the run is the calls of the
  body up to its return, none of them a patch or an event, followed on exit by exactly one
  patch and then the one outcome event. When the role is empty the run is the calls of the
  body, again without patch or event, followed by the outcome event alone.
\<close>

theorem Create_patch_then_event:
  "(NewMachineContext w cluster machine = Inr ctx \<and> ctxRole ctx \<noteq> '''' \<longrightarrow>
      snd (Actuator_Create w cluster machine) =
        trace (snd (Create_body w cluster machine))
          @ [Patch, CreateOutcome ctx (fst (Actuator_Create w cluster machine))]
      \<and> filter is_patch_or_event (trace (snd (Create_body w cluster machine))) = []
      \<and> filter is_patch_or_event (snd (Actuator_Create w cluster machine)) =
           [Patch, CreateOutcome ctx (fst (Actuator_Create w cluster machine))])
   \<and> (NewMachineContext w cluster machine = Inr ctx \<and> ctxRole ctx = '''' \<longrightarrow>
      snd (Actuator_Create w cluster machine) =
        trace (snd (Create_body w cluster machine))
          @ [CreateOutcome ctx (fst (Actuator_Create w cluster machine))]
      \<and> filter is_patch_or_event (trace (snd (Create_body w cluster machine))) = []
      \<and> filter is_patch_or_event (snd (Actuator_Create w cluster machine)) =
           [CreateOutcome ctx (fst (Actuator_Create w cluster machine))])"
  by (simp add: actuator_defs is_patch_or_event_CreateOutcome
      split: sum.splits option.splits)

theorem Create_patch_then_event_witness:
  "NewMachineContext (world ''node'' ca_full [''m0''] (True, ''ok'', None)) ''c1'' ''m1''
      = Inr (ctx_of ''node'' ca_full)
   \<and> ctxRole (ctx_of ''node'' ca_full) \<noteq> ''''
   \<and> trace (snd (Create_body (world ''node'' ca_full [''m0''] (True, ''ok'', None))
        ''c1'' ''m1''))
      = [CallNewMachineContext, CallRole, LogInfo ''creating machine'',
         CallHasCertAndKey, CallGetControlPlaneMachines, CallGetControlPlaneStatus,
         CallGetKubeClientForCluster, CallNewBootstrap 7 600000000000,
         CallGovmomiCreate ''abcdef'']
   \<and> snd (Actuator_Create (world ''node'' ca_full [''m0''] (True, ''ok'', None))
        ''c1'' ''m1'')
      = [CallNewMachineContext, CallRole, LogInfo ''creating machine'',
         CallHasCertAndKey, CallGetControlPlaneMachines, CallGetControlPlaneStatus,
         CallGetKubeClientForCluster, CallNewBootstrap 7 600000000000,
         CallGovmomiCreate ''abcdef'']
        @ [Patch, Eventf ''CreateSuccess'' ''created machine %q'' ''c1/m1'']
   \<and> NewMachineContext (world '''' ca_full [''m0''] (True, ''ok'', None)) ''c1'' ''m1''
      = Inr (ctx_of '''' ca_full)
   \<and> ctxRole (ctx_of '''' ca_full) = ''''
   \<and> snd (Actuator_Create (world '''' ca_full [''m0''] (True, ''ok'', None)) ''c1'' ''m1'')
      = [CallNewMachineContext, CallRole]
        @ [Warnf ''CreateFailure'' ''failed to create machine %q: %v'' ''c1/m1''
            (Errorf ''unable to get machine role while creating machine %q'' ''c1/m1'')]"
  using Create_patch_then_event [of "world ''node'' ca_full [''m0''] (True, ''ok'', None)"
      "''c1''" "''m1''" "ctx_of ''node'' ca_full"]
    Create_patch_then_event [of "world '''' ca_full [''m0''] (True, ''ok'', None)"
      "''c1''" "''m1''" "ctx_of '''' ca_full"]
  by (simp add: world_defs actuator_defs outcome_defs defaultTokenTTL_val)

subsection \<open>Delete\<close>

text \<open>
  C8. When the context is built, Delete calls the backend's delete exactly once and returns its
  result unchanged. The run is fixed by the context and that result: it is the same whatever
  the role in the context is, and it does not change when the control-plane role constant, the
  membership query and the online probe are replaced by any others.
\<close>

theorem Delete_unconditional:
  assumes "NewMachineContext w cluster machine = Inr ctx"
  shows "Actuator_Delete w cluster machine =
           (govmomi_Delete w ctx,
            [CallNewMachineContext, LogInfo ''deleting machine'', CallGovmomiDelete, Patch,
             DeleteOutcome ctx (govmomi_Delete w ctx)])
       \<and> filter is_backend_call (snd (Actuator_Delete w cluster machine))
           = [CallGovmomiDelete]
       \<and> Actuator_Delete
           (w\<lparr>ControlPlaneRole := r, GetControlPlaneMachines := g,
              GetControlPlaneStatus := p\<rparr>)
           cluster machine
         = Actuator_Delete w cluster machine"
  using assms by (simp add: actuator_defs outcome_defs split: option.splits)

theorem Delete_unconditional_witness:
  "NewMachineContext (world ''controlplane'' ca_no_cert [] (False, ''down'', None))
      ''c1'' ''m1''
      = Inr (ctx_of ''controlplane'' ca_no_cert)
   \<and> Actuator_Delete (world ''controlplane'' ca_no_cert [] (False, ''down'', None))
        ''c1'' ''m1''
      = (None,
         [CallNewMachineContext, LogInfo ''deleting machine'', CallGovmomiDelete, Patch,
          Eventf ''DeleteSuccess'' ''deleted machine %q'' ''c1/m1''])"
  using Delete_unconditional
    [of "world ''controlplane'' ca_no_cert [] (False, ''down'', None)"
      "''c1''" "''m1''" "ctx_of ''controlplane'' ca_no_cert"]
  by (simp add: world_defs outcome_defs)

subsection \<open>Exists\<close>

text \<open>
  C9. Exists flushes no patch and records no event, whether it succeeds or fails. It returns
  \<open>(False, err)\<close> when the context cannot be built and the backend's answer otherwise.
\<close>

theorem Exists_read_only:
  "filter is_patch (snd (Actuator_Exists w cluster machine)) = []
   \<and> filter is_event (snd (Actuator_Exists w cluster machine)) = []
   \<and> fst (Actuator_Exists w cluster machine) =
       (case NewMachineContext w cluster machine of
          Inl err \<Rightarrow> (False, Some err)
        | Inr ctx \<Rightarrow> govmomi_Exists w ctx)"
  by (simp add: actuator_defs split: sum.splits)

subsection \<open>Create reads only the probe's boolean\<close>

text \<open>
  C10. Replace the online probe by any probe that answers the same boolean, with whatever
  detail and error: Create returns the same result and makes the same calls. So an error
  returned by the probe never reaches the result of Create.
\<close>

theorem Create_probe_only_online:
  assumes "\<forall>ctx. fst (probe ctx) = fst (GetControlPlaneStatus w ctx)"
  shows "Actuator_Create (w\<lparr>GetControlPlaneStatus := probe\<rparr>) cluster machine
           = Actuator_Create w cluster machine"
  using assms by (simp add: actuator_defs split: sum.splits option.splits)

theorem Create_probe_only_online_witness:
  "(\<forall>ctx. fst ((\<lambda>c. (True, ''degraded'', Some (External ''etcd timeout''))) ctx)
      = fst (GetControlPlaneStatus (world ''node'' ca_full [''m0''] (True, ''ok'', None)) ctx))
   \<and> Actuator_Create
       ((world ''node'' ca_full [''m0''] (True, ''ok'', None))
          \<lparr>GetControlPlaneStatus :=
             (\<lambda>c. (True, ''degraded'', Some (External ''etcd timeout'')))\<rparr>)
       ''c1'' ''m1''
     = Actuator_Create (world ''node'' ca_full [''m0''] (True, ''ok'', None)) ''c1'' ''m1''
   \<and> fst (Actuator_Create
       ((world ''node'' ca_full [''m0''] (True, ''ok'', None))
          \<lparr>GetControlPlaneStatus :=
             (\<lambda>c. (True, ''degraded'', Some (External ''etcd timeout'')))\<rparr>)
       ''c1'' ''m1'') = None"
  using Create_probe_only_online
    [of "\<lambda>c. (True, ''degraded'', Some (External ''etcd timeout''))"
      "world ''node'' ca_full [''m0''] (True, ''ok'', None)" "''c1''" "''m1''"]
  by (simp add: world_defs actuator_defs outcome_defs)

end
